theory Spec2Isabelle
  imports Complex_Main "HOL-Library.Char_ord" "HOL-Library.List_Lexorder" "HOL-Library.AList"
begin

section \<open>The data model of testrules.py\<close>

text \<open>
  Strings are Python \<open>str\<close> values, an optional argument (\<open>None\<close> by default) is an
  \<open>option\<close>, Python integers are \<open>int\<close>, and the readings of \<open>time.time()\<close> are
  \<open>real\<close> numbers that the code only subtracts. Record fields carry a short prefix of
  their class, since a field is a global constant in HOL.
\<close>

record TestMethod =
  tm_name :: string
  tm_module :: string
  tm_class_name :: "string option"
  tm_file_path :: "string option"
  tm_full_name :: string

text \<open>Truthiness of an optional string: \<open>None\<close> and the empty string are false.\<close>

fun truthy_str :: "string option \<Rightarrow> bool" where
  "truthy_str None = False"
| "truthy_str (Some s) = (s \<noteq> [])"

definition TestMethod_init :: "string \<Rightarrow> string \<Rightarrow> string option \<Rightarrow> string option \<Rightarrow> TestMethod" where
  "TestMethod_init name module_name class_name file_path =
     \<lparr> tm_name = name, tm_module = module_name, tm_class_name = class_name, tm_file_path = file_path,
       tm_full_name = (case class_name of
            Some c \<Rightarrow> (if c \<noteq> [] then module_name @ ''.'' @ c @ ''.'' @ name else module_name @ ''.'' @ name)
          | None \<Rightarrow> module_name @ ''.'' @ name) \<rparr>"

record MethodResult =
  mr_method :: TestMethod
  mr_status :: string
  mr_duration :: real
  mr_error :: "string option"
  mr_traceback_str :: "string option"

definition MethodResult_init ::
  "TestMethod \<Rightarrow> string \<Rightarrow> real \<Rightarrow> string option \<Rightarrow> string option \<Rightarrow> MethodResult" where
  "MethodResult_init method status duration error traceback_str =
     \<lparr> mr_method = method, mr_status = status, mr_duration = duration,
       mr_error = error, mr_traceback_str = traceback_str \<rparr>"

record TestResult =
  tr_total :: int
  tr_passed :: int
  tr_failed :: int
  tr_errors :: int
  tr_method_results :: "MethodResult list"
  tr_duration :: real
  tr_start_time :: "real option"
  tr_end_time :: "real option"

definition TestResult_init :: TestResult where
  "TestResult_init =
     \<lparr> tr_total = 0, tr_passed = 0, tr_failed = 0, tr_errors = 0, tr_method_results = [],
       tr_duration = 0, tr_start_time = None, tr_end_time = None \<rparr>"

text \<open>
  \<open>TestResult.add_result\<close>: the result is appended and \<open>total\<close> incremented whatever
  the status is; a counter moves only for one of the three status strings.
\<close>

definition add_result :: "TestResult \<Rightarrow> MethodResult \<Rightarrow> TestResult" where
  "add_result self method_result =
     (let s1 = self\<lparr> tr_method_results := tr_method_results self @ [method_result] \<rparr>;
          s2 = s1\<lparr> tr_total := tr_total s1 + 1 \<rparr>
      in if mr_status method_result = ''pass'' then s2\<lparr> tr_passed := tr_passed s2 + 1 \<rparr>
         else if mr_status method_result = ''fail'' then s2\<lparr> tr_failed := tr_failed s2 + 1 \<rparr>
         else if mr_status method_result = ''error'' then s2\<lparr> tr_errors := tr_errors s2 + 1 \<rparr>
         else s2)"

section \<open>Paths and the file system\<close>

text \<open>
  \<open>os.path.join\<close> of \<open>posixpath\<close>: a component that starts with the separator
  replaces what was joined so far; otherwise it is appended, after a separator unless the
  path so far is empty or ends with one.
\<close>

fun startswith :: "string \<Rightarrow> string \<Rightarrow> bool" where
  "startswith s [] = True"
| "startswith [] (p # ps) = False"
| "startswith (c # cs) (p # ps) = (c = p \<and> startswith cs ps)"

fun endswith_sep :: "string \<Rightarrow> bool" where
  "endswith_sep [] = False"
| "endswith_sep [c] = (c = CHR ''/'')"
| "endswith_sep (c # d # cs) = endswith_sep (d # cs)"

definition join_step :: "string \<Rightarrow> string \<Rightarrow> string" where
  "join_step path b =
     (if startswith b ''/'' then b
      else if path = [] \<or> endswith_sep path then path @ b
      else path @ ''/'' @ b)"

definition os_path_join :: "string \<Rightarrow> string list \<Rightarrow> string" where
  "os_path_join a p = foldl join_step a p"

text \<open>\<open>sub in s\<close> on strings.\<close>

fun str_contains :: "string \<Rightarrow> string \<Rightarrow> bool" where
  "str_contains [] sub = (sub = [])"
| "str_contains (c # cs) sub = (startswith (c # cs) sub \<or> str_contains cs sub)"

text \<open>
  The file system is a parameter: \<open>os_path_exists\<close> is \<open>os.path.exists\<close> and
  \<open>glob_glob\<close> is \<open>glob.glob(pattern, recursive=True)\<close>, whose list may come in any order.
\<close>

record filesystem =
  os_path_exists :: "string \<Rightarrow> bool"
  glob_glob :: "string \<Rightarrow> string list"

text \<open>
  \<open>sorted(list(set(xs)))\<close>: the set drops the duplicates and Python compares strings
  code point by code point, the lexicographic order of \<open>string\<close>.
\<close>

definition sorted_set :: "string list \<Rightarrow> string list" where
  "sorted_set xs = sort (remdups xs)"

section \<open>Loading a module\<close>

text \<open>
  The exception classes that \<open>safe_import_module\<close> tells apart, each with the text of
  \<open>str(e)\<close>.
\<close>

datatype exn = ImportError string | SyntaxError string | OtherException string

text \<open>
  What \<open>safe_import_module\<close> calls outside testrules.py is a parameter. Loading runs the
  module's own top-level code, which shares \<open>sys.path\<close> with the runner: \<open>exec_module\<close> and
  \<open>import_module\<close> take the path as they find it and give it back as that code leaves it,
  with the loaded module or the exception raised.
\<close>

record 'm import_env = filesystem +
  spec_from_file_location :: "string \<Rightarrow> string \<Rightarrow> exn + bool"
  module_dir_of :: "string \<Rightarrow> string"
  exec_module :: "string \<Rightarrow> string \<Rightarrow> string list \<Rightarrow> (exn + 'm) \<times> string list"
  import_module :: "string \<Rightarrow> string list \<Rightarrow> (exn + 'm) \<times> string list"

type_synonym 'm import_result = "'m option \<times> bool \<times> string option"

text \<open>The three \<open>except\<close> clauses, in the order of the source.\<close>

fun import_failure :: "string \<Rightarrow> exn \<Rightarrow> 'm import_result" where
  "import_failure module_name (ImportError e) = (None, False, Some (''ImportError: '' @ e))"
| "import_failure module_name (SyntaxError e) =
     (None, False, Some (''SyntaxError in '' @ module_name @ '': '' @ e))"
| "import_failure module_name (OtherException e) =
     (None, False, Some (''Unexpected error importing '' @ module_name @ '': '' @ e))"

fun import_outcome :: "string \<Rightarrow> exn + 'm \<Rightarrow> 'm import_result" where
  "import_outcome module_name (Inr loaded) = (Some loaded, True, None)"
| "import_outcome module_name (Inl e) = import_failure module_name e"

text \<open>
  \<open>safe_import_module\<close> with \<open>sys.path\<close> as explicit state. \<open>spec_from_file_location\<close>
  answers \<open>Inr True\<close> when \<open>spec and spec.loader\<close> holds, \<open>Inr False\<close> when it does not,
  and \<open>Inl e\<close> when it, or \<open>module_from_spec\<close> after it, raises \<open>e\<close>: all before
  \<open>sys.path\<close> is touched. \<open>module_dir_of\<close> is
  \<open>os.path.dirname(os.path.abspath(file_path))\<close>. The \<open>finally\<close> clause runs
  \<open>sys.path.remove(module_dir)\<close>, which deletes the first occurrence and raises
  \<open>ValueError\<close> when there is none; that exception replaces the pending result and is
  caught by the last \<open>except\<close> clause.
\<close>

definition safe_import_module ::
  "'m import_env \<Rightarrow> string \<Rightarrow> string option \<Rightarrow> string list \<Rightarrow> 'm import_result \<times> string list" where
  "safe_import_module env module_name file_path sys_path =
     (case file_path of
        Some fp \<Rightarrow>
          (if fp \<noteq> [] \<and> os_path_exists env fp then
             (case spec_from_file_location env module_name fp of
                Inl e \<Rightarrow> (import_failure module_name e, sys_path)
              | Inr False \<Rightarrow>
                  ((None, False,
                    Some (''Could not create module spec for '' @ module_name @ '' at '' @ fp)),
                   sys_path)
              | Inr True \<Rightarrow>
                  (let module_dir = module_dir_of env fp;
                       path_added = (module_dir \<notin> set sys_path);
                       p1 = (if path_added then module_dir # sys_path else sys_path);
                       (r, p2) = exec_module env module_name fp p1
                   in if path_added then
                        (if module_dir \<in> set p2
                         then (import_outcome module_name r, remove1 module_dir p2)
                         else (import_failure module_name
                                 (OtherException ''list.remove(x): x not in list''), p2))
                      else (import_outcome module_name r, p2)))
           else (let (r, p) = import_module env module_name sys_path
                 in (import_outcome module_name r, p)))
      | None \<Rightarrow>
          (let (r, p) = import_module env module_name sys_path
           in (import_outcome module_name r, p)))"

section \<open>Running one test method\<close>

text \<open>
  The framework result of \<open>unittest\<close>, as far as \<open>run_single_test_method\<close> reads it:
  the answer of \<open>wasSuccessful()\<close> and the two lists of (test, formatted traceback)
  entries. The three are independent here, so every result object is covered.
\<close>

record unittest_result =
  ur_wasSuccessful :: bool
  ur_failures :: "(string \<times> string) list"
  ur_errors :: "(string \<times> string) list"

text \<open>
  Building and running the single-method suite is the parameter \<open>suite_run\<close>: it gives
  the framework result, or \<open>Inl (str(e), traceback.format_exc())\<close> for an exception that
  escapes. \<open>start_time\<close> and \<open>end_time\<close> are the two readings of the clock.
\<close>

definition run_single_test_method ::
  "'m import_env \<Rightarrow> ('m option \<Rightarrow> TestMethod \<Rightarrow> (string \<times> string) + unittest_result) \<Rightarrow>
   real \<Rightarrow> real \<Rightarrow> TestMethod \<Rightarrow> string list \<Rightarrow> MethodResult \<times> string list" where
  "run_single_test_method env suite_run start_time end_time test_method sys_path =
     (let ((loaded, success, error_msg), p) =
            safe_import_module env (tm_module test_method) (tm_file_path test_method) sys_path;
          duration = end_time - start_time
      in if \<not> success then
           (MethodResult_init test_method ''error'' duration
              (Some (''Failed to import module: '' @ (case error_msg of Some s \<Rightarrow> s | None \<Rightarrow> ''None'')))
              None, p)
         else
           (case suite_run loaded test_method of
              Inl (error_msg, traceback_str) \<Rightarrow>
                (MethodResult_init test_method ''error'' duration (Some error_msg) (Some traceback_str), p)
            | Inr result \<Rightarrow>
                (if ur_wasSuccessful result then
                   (MethodResult_init test_method ''pass'' duration None None, p)
                 else (case ur_failures result of
                    failure # _ \<Rightarrow>
                      (MethodResult_init test_method ''fail'' duration
                         (Some (snd failure)) (Some (snd failure)), p)
                  | [] \<Rightarrow>
                      (case ur_errors result of
                         error # _ \<Rightarrow>
                           (MethodResult_init test_method ''error'' duration
                              (Some (snd error)) (Some (snd error)), p)
                       | [] \<Rightarrow>
                           (MethodResult_init test_method ''error'' duration
                              (Some ''Unknown test result state'') None, p))))))"

section \<open>Configuration\<close>

text \<open>
  A Python \<open>dict\<close> with string keys is an association list in insertion order:
  \<open>k in d\<close> is membership among the keys, \<open>d[k]\<close> and \<open>d.get(k, default)\<close> are \<open>map_of\<close>,
  \<open>d[k] = v\<close> is \<open>AList.update\<close>.

  The parsed configuration document is typed by the schema of the configuration file:
  each of the five keys the runner reads may be missing, and the keys it does not read
  are kept with their raw text.
\<close>

type_synonym 'v dict = "(string \<times> 'v) list"

record config_data =
  jd_test_patterns :: "string list dict option"
  jd_test_groups :: "string list dict option"
  jd_coverage_enabled :: "bool option"
  jd_html_coverage :: "bool option"
  jd_html_coverage_dir :: "string option"
  jd_other :: "string dict"

definition empty_dict :: config_data where
  "empty_dict =
     \<lparr> jd_test_patterns = None, jd_test_groups = None, jd_coverage_enabled = None,
       jd_html_coverage = None, jd_html_coverage_dir = None, jd_other = [] \<rparr>"

record Config =
  cfg_data :: config_data
  test_patterns :: "string list dict"
  test_groups :: "string list dict"
  coverage_enabled :: bool
  html_coverage :: bool
  html_coverage_dir :: string

definition default_test_patterns :: "string list dict" where
  "default_test_patterns =
     [(''unit'', [''test_*.py'', ''*_test.py'']),
      (''integration'', [''integration_test_*.py'', ''*_integration_test.py'']),
      (''e2e'', [''e2e_test_*.py'', ''*_e2e_test.py'']),
      (''regression'', [''regression_test_*.py'', ''*_regression_test.py''])]"

text \<open>The body of \<open>Config.__init__\<close> once \<open>self.data\<close> is a dictionary.\<close>

definition Config_of_dict :: "config_data \<Rightarrow> Config" where
  "Config_of_dict d =
     \<lparr> cfg_data = d,
       test_patterns = (case jd_test_patterns d of Some v \<Rightarrow> v | None \<Rightarrow> default_test_patterns),
       test_groups = (case jd_test_groups d of Some v \<Rightarrow> v | None \<Rightarrow> [(''all'', [])]),
       coverage_enabled = (case jd_coverage_enabled d of Some v \<Rightarrow> v | None \<Rightarrow> True),
       html_coverage = (case jd_html_coverage d of Some v \<Rightarrow> v | None \<Rightarrow> True),
       html_coverage_dir = (case jd_html_coverage_dir d of Some v \<Rightarrow> v | None \<Rightarrow> ''htmlcov'') \<rparr>"

text \<open>
  What \<open>json.load\<close> returns: a dictionary, or any other JSON value, of which
  \<open>Config.__init__\<close> only sees the name of the Python type and the truthiness.
  \<open>data or {}\<close> keeps a truthy value, and \<open>.get\<close> on one that is no dictionary raises
  \<open>AttributeError\<close>, whose text is the \<open>Inl\<close> value.
\<close>

datatype json_value = JObject config_data | JNonObject string bool

definition quoted :: "string \<Rightarrow> string" where
  "quoted s = [CHR 0x27] @ s @ [CHR 0x27]"

fun Config_init :: "json_value option \<Rightarrow> string + Config" where
  "Config_init None = Inr (Config_of_dict empty_dict)"
| "Config_init (Some (JObject d)) = Inr (Config_of_dict d)"
| "Config_init (Some (JNonObject type_name truthy)) =
     (if truthy then Inl (quoted type_name @ '' object has no attribute '' @ quoted ''get'')
      else Inr (Config_of_dict empty_dict))"

definition get_test_types :: "Config \<Rightarrow> string list" where
  "get_test_types self = map fst (test_patterns self)"

definition get_patterns_for_test_type :: "Config \<Rightarrow> string \<Rightarrow> string list" where
  "get_patterns_for_test_type self test_type =
     (case map_of (test_patterns self) test_type of Some v \<Rightarrow> v | None \<Rightarrow> [])"

definition has_test_type :: "Config \<Rightarrow> string \<Rightarrow> bool" where
  "has_test_type self test_type = (test_type \<in> set (map fst (test_patterns self)))"

section \<open>Discovery\<close>

text \<open>Every line the modelled functions print, by the function that prints it.\<close>

datatype message =
    Unknown_test_type string
  | Module_file_not_found string
  | Test_group_not_found string
  | Test_group_contains string nat "string list"
  | Discovering_explicit_modules "string list"
  | Discovering_group string
  | No_modules_in_group string
  | Discovering_type string
  | Discovering_all
  | Found_test_files nat
  | Loaded_configuration string
  | No_configuration_file string
  | Error_parsing_configuration string string
  | Error_loading_configuration string string
  | Using_default_configuration

definition get_test_files_by_type ::
  "filesystem \<Rightarrow> string \<Rightarrow> Config \<Rightarrow> string \<Rightarrow> string list \<times> message list" where
  "get_test_files_by_type fs test_type config search_path =
     (if \<not> has_test_type config test_type then ([], [Unknown_test_type test_type])
      else
        (let patterns = get_patterns_for_test_type config test_type;
             test_files =
               foldl (\<lambda>test_files pattern.
                        test_files @ glob_glob fs (os_path_join search_path [''**'', pattern]))
                     [] patterns
         in (sorted_set test_files, [])))"

fun get_all_test_files_loop ::
  "filesystem \<Rightarrow> Config \<Rightarrow> string \<Rightarrow> string list \<Rightarrow> string list dict \<times> message list \<Rightarrow>
   string list dict \<times> message list" where
  "get_all_test_files_loop fs config search_path [] acc = acc"
| "get_all_test_files_loop fs config search_path (test_type # rest) (all_test_files, out) =
     (let (test_files, w) = get_test_files_by_type fs test_type config search_path
      in get_all_test_files_loop fs config search_path rest
           (if test_files \<noteq> [] then AList.update test_type test_files all_test_files
            else all_test_files, out @ w))"

definition get_all_test_files ::
  "filesystem \<Rightarrow> Config \<Rightarrow> string \<Rightarrow> string list dict \<times> message list" where
  "get_all_test_files fs config search_path =
     get_all_test_files_loop fs config search_path (get_test_types config) ([], [])"

definition possible_paths :: "string \<Rightarrow> string \<Rightarrow> string list" where
  "possible_paths module_name search_path =
     [module_name @ ''.py'',
      os_path_join search_path [module_name @ ''.py''],
      os_path_join search_path [''**'', module_name @ ''.py'']]"

text \<open>
  The inner loop over the candidates, \<open>None\<close> when \<open>found\<close> stays false. A candidate
  that contains \<open>**\<close> is expanded by \<open>glob\<close> and all its matches are taken; any other is
  tested for existence.
\<close>

fun try_possible_paths :: "filesystem \<Rightarrow> string list \<Rightarrow> string list option" where
  "try_possible_paths fs [] = None"
| "try_possible_paths fs (path # rest) =
     (if str_contains path ''**'' then
        (let matching_files = glob_glob fs path
         in if matching_files \<noteq> [] then Some matching_files else try_possible_paths fs rest)
      else if os_path_exists fs path then Some [path]
      else try_possible_paths fs rest)"

fun discover_files_by_modules_loop ::
  "filesystem \<Rightarrow> string \<Rightarrow> string list \<Rightarrow> string list \<times> message list \<Rightarrow>
   string list \<times> message list" where
  "discover_files_by_modules_loop fs search_path [] acc = acc"
| "discover_files_by_modules_loop fs search_path (module_name # rest) (test_files, out) =
     (case try_possible_paths fs (possible_paths module_name search_path) of
        Some hit \<Rightarrow> discover_files_by_modules_loop fs search_path rest (test_files @ hit, out)
      | None \<Rightarrow>
          discover_files_by_modules_loop fs search_path rest
            (test_files, out @ [Module_file_not_found module_name]))"

definition discover_files_by_modules ::
  "filesystem \<Rightarrow> string list \<Rightarrow> string \<Rightarrow> string list \<times> message list" where
  "discover_files_by_modules fs module_names search_path =
     (let (test_files, out) = discover_files_by_modules_loop fs search_path module_names ([], [])
      in (sorted_set test_files, out))"

definition resolve_test_group :: "string \<Rightarrow> Config \<Rightarrow> string list \<times> message list" where
  "resolve_test_group group_name config =
     (case map_of (test_groups config) group_name of
        None \<Rightarrow> ([], [Test_group_not_found group_name])
      | Some modules \<Rightarrow> (modules, [Test_group_contains group_name (length modules) modules]))"

text \<open>
  \<open>discover_tests\<close>. The tests \<open>if modules\<close>, \<open>elif group\<close> and \<open>elif test_type\<close> are
  Python truthiness: \<open>None\<close>, the empty list and the empty string are false.
\<close>

fun truthy_list :: "string list option \<Rightarrow> bool" where
  "truthy_list None = False"
| "truthy_list (Some xs) = (xs \<noteq> [])"

fun or_empty :: "string list option \<Rightarrow> string list" where
  "or_empty None = []"
| "or_empty (Some xs) = xs"

fun or_empty_str :: "string option \<Rightarrow> string" where
  "or_empty_str None = []"
| "or_empty_str (Some s) = s"

definition discover_tests ::
  "filesystem \<Rightarrow> string option \<Rightarrow> string list option \<Rightarrow> string option \<Rightarrow> Config option \<Rightarrow>
   string \<Rightarrow> string list \<times> message list" where
  "discover_tests fs test_type modules group_opt config0 search_path =
     (let config = (case config0 of None \<Rightarrow> Config_of_dict empty_dict | Some c \<Rightarrow> c)
      in if truthy_list modules then
           (let (test_files, w) = discover_files_by_modules fs (or_empty modules) search_path
            in (test_files,
                [Discovering_explicit_modules (or_empty modules)] @ w
                @ [Found_test_files (length test_files)]))
         else if truthy_str group_opt then
           (let (group_modules, w1) = resolve_test_group (or_empty_str group_opt) config
            in if group_modules \<noteq> [] then
                 (let (test_files, w2) = discover_files_by_modules fs group_modules search_path
                  in (test_files,
                      [Discovering_group (or_empty_str group_opt)] @ w1 @ w2
                      @ [Found_test_files (length test_files)]))
               else
                 ([], [Discovering_group (or_empty_str group_opt)] @ w1
                      @ [No_modules_in_group (or_empty_str group_opt), Found_test_files 0]))
         else if truthy_str test_type then
           (let (test_files, w) = get_test_files_by_type fs (or_empty_str test_type) config search_path
            in (test_files,
                [Discovering_type (or_empty_str test_type)] @ w
                @ [Found_test_files (length test_files)]))
         else
           (let (all_test_files, w) = get_all_test_files fs config search_path;
                test_files = sorted_set (foldl (\<lambda>test_files files. test_files @ files) []
                                           (map snd all_test_files))
            in (test_files, [Discovering_all] @ w @ [Found_test_files (length test_files)])))"

subsection \<open>The module strategy in the words of the specification\<close>

text \<open>
  By the words of the specification, not from the source: for each name, the path
  \<open><name>.py\<close> is tried, then \<open><searchPath>/<name>.py\<close>, both for existence, then the
  recursive glob \<open><searchPath>/**/<name>.py\<close>; the first candidate that hits is emitted
  (for the glob, its matches) and a name without a hit is warned about. The output is
  sorted and deduplicated. \<open>discover_files_by_modules\<close> above is compared with it.
\<close>

definition spec_first_hit :: "filesystem \<Rightarrow> string \<Rightarrow> string \<Rightarrow> string list option" where
  "spec_first_hit fs search_path module_name =
     (if os_path_exists fs (module_name @ ''.py'') then Some [module_name @ ''.py'']
      else if os_path_exists fs (os_path_join search_path [module_name @ ''.py''])
        then Some [os_path_join search_path [module_name @ ''.py'']]
      else if glob_glob fs (os_path_join search_path [''**'', module_name @ ''.py'']) \<noteq> []
        then Some (glob_glob fs (os_path_join search_path [''**'', module_name @ ''.py'']))
      else None)"

definition spec_discover_modules ::
  "filesystem \<Rightarrow> string list \<Rightarrow> string \<Rightarrow> string list \<times> message list" where
  "spec_discover_modules fs module_names search_path =
     (sorted_set (concat (map (\<lambda>m. case spec_first_hit fs search_path m of
                                        Some hit \<Rightarrow> hit | None \<Rightarrow> []) module_names)),
      map Module_file_not_found
        (filter (\<lambda>m. spec_first_hit fs search_path m = None) module_names))"

section \<open>Loading the configuration\<close>

text \<open>
  What \<open>load_config\<close> asks of its environment: whether the file exists, what
  \<open>open\<close> and reading give for it (the text, or the message of the exception raised), and
  what \<open>json\<close> makes of a text: the parsed value, a \<open>json.JSONDecodeError\<close>, or any
  other exception.
\<close>

datatype load_error = JSONDecodeError string | OtherLoadError string

record config_env =
  config_exists :: "string \<Rightarrow> bool"
  open_read :: "string \<Rightarrow> string + string"
  json_loads :: "string \<Rightarrow> load_error + json_value"

text \<open>
  \<open>load_config\<close>, with every \<open>except\<close> clause as a branch. The line
  \<open>Loaded configuration\<close> is printed before \<open>Config(data)\<close> is built, so it precedes the
  error lines when \<open>Config(data)\<close> raises.
\<close>

definition load_config :: "config_env \<Rightarrow> string \<Rightarrow> Config \<times> message list" where
  "load_config env config_file =
     (if config_exists env config_file then
        (case open_read env config_file of
           Inl e \<Rightarrow>
             (Config_of_dict empty_dict,
              [Error_loading_configuration config_file e, Using_default_configuration])
         | Inr content \<Rightarrow>
             (case json_loads env content of
                Inr data \<Rightarrow>
                  (case Config_init (Some data) of
                     Inr config \<Rightarrow> (config, [Loaded_configuration config_file])
                   | Inl e \<Rightarrow>
                       (Config_of_dict empty_dict,
                        [Loaded_configuration config_file,
                         Error_loading_configuration config_file e, Using_default_configuration]))
              | Inl (JSONDecodeError e) \<Rightarrow>
                  (Config_of_dict empty_dict,
                   [Error_parsing_configuration config_file e, Using_default_configuration])
              | Inl (OtherLoadError e) \<Rightarrow>
                  (Config_of_dict empty_dict,
                   [Error_loading_configuration config_file e, Using_default_configuration])))
      else (Config_of_dict empty_dict, [No_configuration_file config_file]))"

section \<open>Lint result and exit code\<close>

text \<open>
  \<open>run_lint\<close> hands \<open>main\<close> an integer: \<open>-1\<close> when flake8 is missing or raised,
  otherwise the number of violations. \<open>report_lint_results\<close> prints one of three blocks.
\<close>

datatype lint_report = Linting_failed_due_to_an_error | No_style_violations_found | Found_style_violations int

definition report_lint_results :: "int \<Rightarrow> lint_report" where
  "report_lint_results violation_count =
     (if violation_count = - 1 then Linting_failed_due_to_an_error
      else if violation_count = 0 then No_style_violations_found
      else Found_style_violations violation_count)"

text \<open>
  The exit code of \<open>main\<close>, from the values the stages it calls give it: the action of
  \<open>parse_arguments\<close>, the result of \<open>run_lint\<close>, the list of \<open>discover_tests\<close>, the number of
  test methods found and the \<open>TestResult\<close> of \<open>run_tests\<close>.
\<close>

definition main :: "string \<Rightarrow> int \<Rightarrow> string list \<Rightarrow> int \<Rightarrow> TestResult \<Rightarrow> int" where
  "main action violation_count discovered_files total_methods test_results =
     (if action = ''help'' then 0
      else if action = ''lint'' then (if violation_count > 0 then 1 else 0)
      else
        (let lint_failed = (if action = ''check'' then violation_count > 0 else False)
         in if discovered_files = [] then 1
            else if total_methods = 0 then 1
            else if tr_failed test_results > 0 \<or> tr_errors test_results > 0 \<or> lint_failed then 1
            else 0))"

section \<open>Example inputs\<close>

text \<open>Concrete environments and values at which the theorems below are instantiated.\<close>

definition example_env :: "nat import_env" where
  "example_env =
     \<lparr> os_path_exists = (\<lambda>p. p = ''tests/test_sample.py''), glob_glob = (\<lambda>_. []),
       spec_from_file_location = (\<lambda>_ _. Inr True), module_dir_of = (\<lambda>_. ''/repo/tests''),
       exec_module = (\<lambda>_ _ p. (Inr 7, p)),
       import_module = (\<lambda>m p. (Inl (ImportError (''No module named '' @ m)), p)) \<rparr>"

definition fixture_env :: "nat import_env" where
  "fixture_env =
     \<lparr> os_path_exists = (\<lambda>p. p = ''example-project/tests/test_utils.py''),
       glob_glob = (\<lambda>_. []),
       spec_from_file_location = (\<lambda>_ _. Inr True),
       module_dir_of = (\<lambda>_. ''/repo/example-project/tests''),
       exec_module = (\<lambda>_ _ p. (Inr 7, ''/repo/example-project/tests/../src'' # p)),
       import_module = (\<lambda>m p. (Inl (ImportError (''No module named '' @ m)), p)) \<rparr>"

definition example_method :: TestMethod where
  "example_method =
     TestMethod_init ''test_fail'' ''test_sample'' (Some ''TestSample'') (Some ''tests/test_sample.py'')"

definition failed_and_errored :: unittest_result where
  "failed_and_errored =
     \<lparr> ur_wasSuccessful = False,
       ur_failures = [(''test_fail'', ''AssertionError: 2 != 3'')],
       ur_errors = [(''test_fail'', ''ValueError: in tearDown'')] \<rparr>"

definition example_results :: "MethodResult list" where
  "example_results =
     [MethodResult_init example_method ''pass'' 0.1 None None,
      MethodResult_init example_method ''fail'' 0.2 (Some ''AssertionError'') (Some ''tb''),
      MethodResult_init example_method ''error'' 0.3 (Some ''ValueError'') (Some ''tb'')]"

definition star_fs :: filesystem where
  "star_fs =
     \<lparr> os_path_exists = (\<lambda>p. p = ''ab.py'' \<or> p = ''tests''),
       glob_glob = (\<lambda>p. if p = ''a**b.py'' then [''ab.py''] else []) \<rparr>"

definition two_dirs_fs :: filesystem where
  "two_dirs_fs =
     \<lparr> os_path_exists = (\<lambda>p. p = ''tests/unit/test_a.py'' \<or> p = ''tests/api/test_a.py''
                                \<or> p = ''tests/test_b.py''),
       glob_glob = (\<lambda>p. if p = ''tests/**/test_a.py''
                          then [''tests/unit/test_a.py'', ''tests/api/test_a.py'']
                          else if p = ''tests/**/test_b.py'' then [''tests/test_b.py'']
                          else []) \<rparr>"

definition single_file_fs :: filesystem where
  "single_file_fs =
     \<lparr> os_path_exists = (\<lambda>p. p = ''test_clean.py'' \<or> p = ''./test_clean.py''),
       glob_glob = (\<lambda>p. if p = ''./**/test_*.py'' \<or> p = ''./**/test_clean.py''
                          then [''./test_clean.py''] else []) \<rparr>"

definition unnamed_group_config :: Config where
  "unnamed_group_config =
     Config_of_dict (empty_dict\<lparr> jd_test_groups := Some [('''', [''test_clean''])] \<rparr>)"

definition core_group_config :: Config where
  "core_group_config =
     Config_of_dict (empty_dict\<lparr> jd_test_groups := Some [(''core'', [''test_clean''])] \<rparr>)"

definition clean_run :: TestResult where
  "clean_run = TestResult_init\<lparr> tr_total := 2, tr_passed := 2 \<rparr>"

definition example_config_env :: config_env where
  "example_config_env =
     \<lparr> config_exists = (\<lambda>f. f \<noteq> ''missing.json''),
       open_read = (\<lambda>f. if f = ''locked.json'' then Inl ''Permission denied''
                          else if f = ''empty.json'' then Inr []
                          else if f = ''braces.json'' then Inr ''{}''
                          else Inr ''{''),
       json_loads = (\<lambda>t. if t = ''{}'' then Inr (JObject empty_dict)
                           else Inl (JSONDecodeError ''Expecting value'')) \<rparr>"

section \<open>Properties of the executor\<close>

text \<open>
  When the import succeeds and the suite runs without an escaping exception, the result of
  \<open>run_single_test_method\<close> is decided by the framework result alone.
\<close>

lemma run_single_test_method_ran:
  assumes "safe_import_module env (tm_module t) (tm_file_path t) sp = ((loaded, True, msg), sp')"
    and "suite_run loaded t = Inr result"
  shows "run_single_test_method env suite_run t0 t1 t sp =
     ((if ur_wasSuccessful result then MethodResult_init t ''pass'' (t1 - t0) None None
      else case ur_failures result of
         failure # _ \<Rightarrow>
           MethodResult_init t ''fail'' (t1 - t0) (Some (snd failure)) (Some (snd failure))
       | [] \<Rightarrow>
          (case ur_errors result of
             error # _ \<Rightarrow>
               MethodResult_init t ''error'' (t1 - t0) (Some (snd error)) (Some (snd error))
           | [] \<Rightarrow>
               MethodResult_init t ''error'' (t1 - t0) (Some ''Unknown test result state'') None)),
      sp')"
  using assms by (auto simp: run_single_test_method_def Let_def split: list.splits)

lemma example_import:
  "safe_import_module example_env (tm_module example_method) (tm_file_path example_method) [''/lib'']
     = ((Some 7, True, None), [''/lib''])"
  by (simp add: safe_import_module_def example_env_def example_method_def TestMethod_init_def)

text \<open>
  Claim C1: for every framework result produced by running a single-method suite,
  \<open>run_single_test_method\<close> gives status \<open>pass\<close> with error and traceback absent when
  the result is successful; otherwise status \<open>fail\<close> with error and traceback of the first
  failure entry when there is one; otherwise status \<open>error\<close> with error and traceback of
  the first error entry when there is one; otherwise status \<open>error\<close> with the error
  \<open>Unknown test result state\<close>.
\<close>

theorem run_single_test_method_result_mapping:
  assumes "safe_import_module env (tm_module t) (tm_file_path t) sp = ((loaded, True, msg), sp')"
    and "suite_run loaded t = Inr result"
  shows "fst (run_single_test_method env suite_run t0 t1 t sp) =
     (if ur_wasSuccessful result then MethodResult_init t ''pass'' (t1 - t0) None None
      else if ur_failures result \<noteq> [] then
        MethodResult_init t ''fail'' (t1 - t0)
          (Some (snd (hd (ur_failures result)))) (Some (snd (hd (ur_failures result))))
      else if ur_errors result \<noteq> [] then
        MethodResult_init t ''error'' (t1 - t0)
          (Some (snd (hd (ur_errors result)))) (Some (snd (hd (ur_errors result))))
      else MethodResult_init t ''error'' (t1 - t0) (Some ''Unknown test result state'') None)"
  by (simp add: run_single_test_method_ran [where suite_run = suite_run, OF assms] split: list.splits)

theorem run_single_test_method_result_mapping_witness:
  "safe_import_module example_env (tm_module example_method) (tm_file_path example_method) [''/lib'']
     = ((Some 7, True, None), [''/lib'']) \<and>
   fst (run_single_test_method example_env
          (\<lambda>_ _. Inr \<lparr> ur_wasSuccessful = False, ur_failures = [],
                         ur_errors = [(''test_fail'', ''ValueError: boom'')] \<rparr>)
          1 3 example_method [''/lib''])
     = MethodResult_init example_method ''error'' 2 (Some ''ValueError: boom'') (Some ''ValueError: boom'')"
proof -
  let ?run = "\<lambda>(_ :: nat option) (_ :: TestMethod).
      (Inr \<lparr> ur_wasSuccessful = False, ur_failures = [],
             ur_errors = [(''test_fail'', ''ValueError: boom'')] \<rparr>
        :: (string \<times> string) + unittest_result)"
  have run: "?run (Some 7) example_method =
      Inr \<lparr> ur_wasSuccessful = False, ur_failures = [],
            ur_errors = [(''test_fail'', ''ValueError: boom'')] \<rparr>"
    by simp
  show ?thesis
    using run_single_test_method_result_mapping [where suite_run = ?run, OF example_import run, of 1 3]
      example_import
    by simp
qed

text \<open>
  Claim C8: for every \<open>MethodResult\<close> that \<open>run_single_test_method\<close> produces, on any of
  its paths (failed import, escaping exception, or mapped framework result), the status is
  \<open>pass\<close> if and only if the error and the traceback are both absent.
\<close>

theorem status_pass_iff_no_error_no_traceback:
  "(mr_status (fst (run_single_test_method env suite_run t0 t1 t sp)) = ''pass'') =
   (mr_error (fst (run_single_test_method env suite_run t0 t1 t sp)) = None \<and>
    mr_traceback_str (fst (run_single_test_method env suite_run t0 t1 t sp)) = None)"
  by (simp add: run_single_test_method_def MethodResult_init_def Let_def
      split: prod.splits sum.splits list.splits)

text \<open>
  Claim C10: when the framework result is unsuccessful and holds both failure entries and
  error entries, the status is \<open>fail\<close>, never \<open>error\<close>, and error and traceback are those
  of the first failure entry.
\<close>

theorem failures_take_precedence_over_errors:
  assumes "safe_import_module env (tm_module t) (tm_file_path t) sp = ((loaded, True, msg), sp')"
    and "suite_run loaded t = Inr result"
    and "\<not> ur_wasSuccessful result"
    and "ur_failures result \<noteq> []"
    and "ur_errors result \<noteq> []"
  shows "mr_status (fst (run_single_test_method env suite_run t0 t1 t sp)) = ''fail'' \<and>
         mr_status (fst (run_single_test_method env suite_run t0 t1 t sp)) \<noteq> ''error'' \<and>
         mr_error (fst (run_single_test_method env suite_run t0 t1 t sp))
           = Some (snd (hd (ur_failures result))) \<and>
         mr_traceback_str (fst (run_single_test_method env suite_run t0 t1 t sp))
           = Some (snd (hd (ur_failures result)))"
  using assms(3-5)
  by (simp add: run_single_test_method_ran [where suite_run = suite_run, OF assms(1,2)]
      MethodResult_init_def split: list.splits)

theorem failures_take_precedence_over_errors_witness:
  "\<not> ur_wasSuccessful failed_and_errored \<and> ur_failures failed_and_errored \<noteq> [] \<and>
   ur_errors failed_and_errored \<noteq> [] \<and>
   mr_status (fst (run_single_test_method example_env (\<lambda>_ _. Inr failed_and_errored)
                     1 3 example_method [''/lib''])) = ''fail'' \<and>
   mr_error (fst (run_single_test_method example_env (\<lambda>_ _. Inr failed_and_errored)
                     1 3 example_method [''/lib''])) = Some ''AssertionError: 2 != 3''"
proof -
  let ?run = "\<lambda>(_ :: nat option) (_ :: TestMethod).
      (Inr failed_and_errored :: (string \<times> string) + unittest_result)"
  have run: "?run (Some 7) example_method = Inr failed_and_errored" by simp
  have a: "\<not> ur_wasSuccessful failed_and_errored" by (simp add: failed_and_errored_def)
  have b: "ur_failures failed_and_errored \<noteq> []" by (simp add: failed_and_errored_def)
  have c: "ur_errors failed_and_errored \<noteq> []" by (simp add: failed_and_errored_def)
  have d: "snd (hd (ur_failures failed_and_errored)) = ''AssertionError: 2 != 3''"
    by (simp add: failed_and_errored_def)
  show ?thesis
    using failures_take_precedence_over_errors [where suite_run = ?run, OF example_import run a b c, of 1 3]
      a b c d
    by simp
qed

section \<open>Properties of the aggregate\<close>

lemma add_result_counters:
  assumes "mr_status m \<in> {''pass'', ''fail'', ''error''}"
  shows "tr_total (add_result r m) = tr_total r + 1"
    and "tr_passed (add_result r m) + tr_failed (add_result r m) + tr_errors (add_result r m)
           = tr_passed r + tr_failed r + tr_errors r + 1"
    and "tr_method_results (add_result r m) = tr_method_results r @ [m]"
  using assms by (auto simp: add_result_def Let_def)

lemma foldl_add_result_consistent:
  assumes "\<forall>m \<in> set ms. mr_status m \<in> {''pass'', ''fail'', ''error''}"
    and "tr_total r = tr_passed r + tr_failed r + tr_errors r"
    and "tr_total r = int (length (tr_method_results r))"
  shows "tr_total (foldl add_result r ms)
           = tr_passed (foldl add_result r ms) + tr_failed (foldl add_result r ms)
             + tr_errors (foldl add_result r ms) \<and>
         tr_total (foldl add_result r ms) = int (length (tr_method_results (foldl add_result r ms)))"
  using assms
proof (induction ms arbitrary: r)
  case Nil
  then show ?case by simp
next
  case (Cons m ms)
  have m: "mr_status m \<in> {''pass'', ''fail'', ''error''}" using Cons.prems(1) by simp
  have "tr_total (add_result r m) = tr_passed (add_result r m) + tr_failed (add_result r m)
          + tr_errors (add_result r m)"
    using add_result_counters(1,2) [OF m, of r] Cons.prems(2) by simp
  moreover have "tr_total (add_result r m) = int (length (tr_method_results (add_result r m)))"
    using add_result_counters(1,3) [OF m, of r] Cons.prems(3) by simp
  ultimately show ?case using Cons.IH [of "add_result r m"] Cons.prems(1) by simp
qed

text \<open>
  Claim C2: starting from a fresh \<open>TestResult\<close>, after each \<open>add_result\<close> of a sequence
  of method results whose statuses are each \<open>pass\<close>, \<open>fail\<close> or \<open>error\<close> (that is, after
  every prefix of the sequence), \<open>total = passed + failed + errors = len(results)\<close>.
\<close>

theorem add_result_keeps_counters_consistent:
  assumes "\<forall>m \<in> set ms. mr_status m \<in> {''pass'', ''fail'', ''error''}"
    and "n \<le> length ms"
  shows "tr_total (foldl add_result TestResult_init (take n ms))
           = tr_passed (foldl add_result TestResult_init (take n ms))
             + tr_failed (foldl add_result TestResult_init (take n ms))
             + tr_errors (foldl add_result TestResult_init (take n ms)) \<and>
         tr_passed (foldl add_result TestResult_init (take n ms))
             + tr_failed (foldl add_result TestResult_init (take n ms))
             + tr_errors (foldl add_result TestResult_init (take n ms))
           = int (length (tr_method_results (foldl add_result TestResult_init (take n ms))))"
proof -
  have "\<forall>m \<in> set (take n ms). mr_status m \<in> {''pass'', ''fail'', ''error''}"
    using assms(1) by (meson in_set_takeD)
  from foldl_add_result_consistent [OF this, of TestResult_init]
  show ?thesis by (simp add: TestResult_init_def)
qed

theorem add_result_keeps_counters_consistent_witness:
  "(2::nat) \<le> length example_results \<and>
   tr_total (foldl add_result TestResult_init (take 2 example_results)) = 2 \<and>
   tr_passed (foldl add_result TestResult_init (take 2 example_results))
     + tr_failed (foldl add_result TestResult_init (take 2 example_results))
     + tr_errors (foldl add_result TestResult_init (take 2 example_results))
     = int (length (tr_method_results (foldl add_result TestResult_init (take 2 example_results))))"
proof -
  have a: "\<forall>m \<in> set example_results. mr_status m \<in> {''pass'', ''fail'', ''error''}"
    by (simp add: example_results_def MethodResult_init_def)
  have b: "(2::nat) \<le> length example_results" by (simp add: example_results_def)
  have c: "tr_total (foldl add_result TestResult_init (take 2 example_results)) = 2"
    by (simp add: example_results_def MethodResult_init_def add_result_def TestResult_init_def Let_def)
  show ?thesis using add_result_keeps_counters_consistent [OF a b] b c by simp
qed

section \<open>Properties of discovery\<close>

lemma sorted_set_sorted: "sorted (sorted_set xs)"
  by (simp add: sorted_set_def)

lemma sorted_set_distinct: "distinct (sorted_set xs)"
  by (simp add: sorted_set_def)

lemma discover_files_by_modules_sorted:
  assumes "discover_files_by_modules fs ms sp = (files, out)"
  shows "sorted files \<and> distinct files"
  using assms
  by (auto simp: discover_files_by_modules_def sorted_set_sorted sorted_set_distinct
      split: prod.splits)

lemma get_test_files_by_type_sorted:
  assumes "get_test_files_by_type fs t c sp = (files, out)"
  shows "sorted files \<and> distinct files"
  using assms
  by (auto simp: get_test_files_by_type_def Let_def sorted_set_sorted sorted_set_distinct
      split: if_splits)

text \<open>
  Claim C4: for every combination of inputs (explicit modules, group, test type, or none of
  them), every configuration, search path and file system, the list of file paths that
  \<open>discover_tests\<close> returns has no duplicates and is in ascending lexicographic order.
\<close>

theorem discover_tests_sorted_distinct:
  "sorted (fst (discover_tests fs test_type modules group_opt config search_path)) \<and>
   distinct (fst (discover_tests fs test_type modules group_opt config search_path))"
proof -
  let ?c = "case config of None \<Rightarrow> Config_of_dict empty_dict | Some c \<Rightarrow> c"
  show ?thesis
  proof (cases "truthy_list modules")
    case True
    then show ?thesis
      using discover_files_by_modules_sorted [of fs "or_empty modules" search_path]
      by (auto simp: discover_tests_def Let_def split: prod.splits)
  next
    case no_modules: False
    show ?thesis
    proof (cases "truthy_str group_opt")
      case True
      then show ?thesis
        using no_modules
          discover_files_by_modules_sorted
            [of fs "fst (resolve_test_group (or_empty_str group_opt) ?c)" search_path]
        by (auto simp: discover_tests_def Let_def split: prod.splits)
    next
      case no_group: False
      show ?thesis
      proof (cases "truthy_str test_type")
        case True
        then show ?thesis
          using no_modules no_group
            get_test_files_by_type_sorted [of fs "or_empty_str test_type" ?c search_path]
          by (auto simp: discover_tests_def Let_def split: prod.splits)
      next
        case False
        then show ?thesis
          using no_modules no_group
          by (auto simp: discover_tests_def Let_def sorted_set_sorted sorted_set_distinct
              split: prod.splits)
      qed
    qed
  qed
qed

text \<open>
  The candidates of a module name: when neither the name nor the search path contains
  \<open>**\<close> and the name does not start with the separator, the first two candidates are
  tested for existence and the third is expanded as a glob.
\<close>

lemma startswith_star_star:
  "startswith (c # cs) ''**'' = (c = CHR ''*'' \<and> startswith cs ''*'')"
  by (cases cs) auto

lemma no_star_star_append:
  assumes "\<not> str_contains a ''**''" and "\<not> str_contains b ''**''"
    and "a = [] \<or> last a \<noteq> CHR ''*'' \<or> \<not> startswith b ''*''"
  shows "\<not> str_contains (a @ b) ''**''"
  using assms
proof (induction a)
  case Nil
  then show ?case by simp
next
  case (Cons c cs)
  show ?case
  proof (cases cs)
    case Nil
    then show ?thesis using Cons.prems by (cases b) auto
  next
    case (Cons d ds)
    then show ?thesis using Cons.prems Cons.IH by auto
  qed
qed

lemma endswith_sep_last: "endswith_sep s \<Longrightarrow> s \<noteq> [] \<and> last s = CHR ''/''"
  by (induction s rule: endswith_sep.induct) auto

lemma str_contains_append_right: "str_contains (a @ ''**'' @ b) ''**''"
  by (induction a) auto

lemma startswith_suffix_py: "\<not> startswith m ''/'' \<Longrightarrow> \<not> startswith (m @ ''.py'') ''/''"
  by (cases m) auto

lemma first_candidate_plain:
  "\<not> str_contains m ''**'' \<Longrightarrow> \<not> str_contains (m @ ''.py'') ''**''"
  by (rule no_star_star_append) auto

lemma second_candidate_plain:
  assumes "\<not> str_contains m ''**''" and "\<not> str_contains sp ''**''"
  shows "\<not> str_contains (os_path_join sp [m @ ''.py'']) ''**''"
proof -
  have py: "\<not> str_contains (m @ ''.py'') ''**''" using assms(1) by (rule first_candidate_plain)
  have slash: "\<not> str_contains (''/'' @ m @ ''.py'') ''**''"
    by (rule no_star_star_append) (use py in auto)
  show ?thesis
  proof (cases "startswith (m @ ''.py'') ''/''")
    case True
    then show ?thesis using py by (simp add: os_path_join_def join_step_def)
  next
    case abs: False
    show ?thesis
    proof (cases "sp = [] \<or> endswith_sep sp")
      case True
      have "\<not> str_contains (sp @ m @ ''.py'') ''**''"
        by (rule no_star_star_append) (use assms(2) py True endswith_sep_last in auto)
      then show ?thesis using abs True by (simp add: os_path_join_def join_step_def)
    next
      case False
      have "\<not> str_contains (sp @ ''/'' @ m @ ''.py'') ''**''"
        by (rule no_star_star_append) (use assms(2) slash in auto)
      then show ?thesis using abs False by (simp add: os_path_join_def join_step_def)
    qed
  qed
qed

lemma third_candidate_glob:
  assumes "\<not> startswith m ''/''"
  shows "str_contains (os_path_join sp [''**'', m @ ''.py'']) ''**''"
proof -
  have abs: "\<not> startswith (m @ ''.py'') ''/''" using assms by (rule startswith_suffix_py)
  have a: "str_contains (sp @ ''**'' @ b) ''**''" for b by (rule str_contains_append_right)
  have b: "str_contains ((sp @ ''/'') @ ''**'' @ b) ''**''" for b
    by (rule str_contains_append_right)
  show ?thesis
    using abs a [of "m @ ''.py''"] a [of "''/'' @ m @ ''.py''"]
      b [of "m @ ''.py''"] b [of "''/'' @ m @ ''.py''"]
    by (auto simp: os_path_join_def join_step_def)
qed

lemma try_possible_paths_as_described:
  assumes "\<not> str_contains m ''**''" and "\<not> str_contains sp ''**''" and "\<not> startswith m ''/''"
  shows "try_possible_paths fs (possible_paths m sp) = spec_first_hit fs sp m"
  using first_candidate_plain [OF assms(1)] second_candidate_plain [OF assms(1,2)]
    third_candidate_glob [OF assms(3), of sp]
  by (simp add: possible_paths_def spec_first_hit_def Let_def)

lemma discover_files_by_modules_loop_as_described:
  assumes "\<forall>m \<in> set ms. \<not> str_contains m ''**'' \<and> \<not> startswith m ''/''"
    and "\<not> str_contains sp ''**''"
  shows "discover_files_by_modules_loop fs sp ms (acc, out) =
     (acc @ concat (map (\<lambda>m. case spec_first_hit fs sp m of Some hit \<Rightarrow> hit | None \<Rightarrow> []) ms),
      out @ map Module_file_not_found (filter (\<lambda>m. spec_first_hit fs sp m = None) ms))"
  using assms
proof (induction ms arbitrary: acc out)
  case Nil
  then show ?case by simp
next
  case (Cons m ms)
  have hit: "try_possible_paths fs (possible_paths m sp) = spec_first_hit fs sp m"
    using Cons.prems by (simp add: try_possible_paths_as_described)
  show ?case
    using Cons.IH Cons.prems by (cases "spec_first_hit fs sp m") (simp_all add: hit)
qed

text \<open>
  Claim C5, as amended: for every non-empty list of module names of which none contains
  \<open>**\<close> or starts with the separator, and every search path that does not contain
  \<open>**\<close>, discovery tries for each name, in order, the paths \<open><name>.py\<close> and
  \<open><searchPath>/<name>.py\<close> and the recursive glob \<open><searchPath>/**/<name>.py\<close>, emits the
  first hit for that name, and warns exactly about the names without a hit.
\<close>

theorem discover_files_by_modules_first_hit:
  assumes "modules \<noteq> []"
    and "\<forall>m \<in> set modules. \<not> str_contains m ''**'' \<and> \<not> startswith m ''/''"
    and "\<not> str_contains search_path ''**''"
  shows "discover_files_by_modules fs modules search_path
           = spec_discover_modules fs modules search_path \<and>
         fst (discover_tests fs test_type (Some modules) group_opt config search_path)
           = fst (spec_discover_modules fs modules search_path) \<and>
         (\<forall>m. Module_file_not_found m
                 \<in> set (snd (discover_tests fs test_type (Some modules) group_opt config search_path))
               \<longleftrightarrow> m \<in> set modules \<and> spec_first_hit fs search_path m = None)"
proof -
  have eq: "discover_files_by_modules fs modules search_path
              = spec_discover_modules fs modules search_path"
    using discover_files_by_modules_loop_as_described [OF assms(2,3), of fs "[]" "[]"]
    by (simp add: discover_files_by_modules_def spec_discover_modules_def)
  show ?thesis
    using assms(1) eq
    by (auto simp: discover_tests_def spec_discover_modules_def Let_def split: prod.splits)
qed

theorem discover_files_by_modules_first_hit_witness:
  "discover_files_by_modules two_dirs_fs [''test_a'', ''test_b'', ''test_c''] ''tests''
     = ([''tests/api/test_a.py'', ''tests/test_b.py'', ''tests/unit/test_a.py''],
        [Module_file_not_found ''test_c'']) \<and>
   spec_first_hit two_dirs_fs ''tests'' ''test_b'' = Some [''tests/test_b.py'']"
proof -
  have a: "[''test_a'', ''test_b'', ''test_c''] \<noteq> []" by simp
  have b: "\<forall>m \<in> set [''test_a'', ''test_b'', ''test_c''].
             \<not> str_contains m ''**'' \<and> \<not> startswith m ''/''" by simp
  have c: "\<not> str_contains ''tests'' ''**''" by simp
  have d: "spec_discover_modules two_dirs_fs [''test_a'', ''test_b'', ''test_c''] ''tests''
     = ([''tests/api/test_a.py'', ''tests/test_b.py'', ''tests/unit/test_a.py''],
        [Module_file_not_found ''test_c''])"
    by (simp add: spec_discover_modules_def spec_first_hit_def two_dirs_fs_def sorted_set_def
        os_path_join_def join_step_def)
  have e: "spec_first_hit two_dirs_fs ''tests'' ''test_b'' = Some [''tests/test_b.py'']"
    by (simp add: spec_first_hit_def two_dirs_fs_def os_path_join_def join_step_def)
  show ?thesis
    using discover_files_by_modules_first_hit [OF a b c, of two_dirs_fs] d e by simp
qed

text \<open>
  Claim C5 as stated, for every list of module names, fails: a candidate is expanded as a
  glob whenever it contains \<open>**\<close>, whatever its place in the list. For the name \<open>a**b\<close>
  and the search path \<open>tests\<close>, with the single file \<open>ab.py\<close> in the working directory,
  none of the three candidates of the specification hits, so a warning is due; the code
  expands the first candidate \<open>a**b.py\<close> and emits \<open>ab.py\<close> without a warning.
\<close>

theorem glob_in_module_name_counterexample:
  "discover_files_by_modules star_fs [''a**b''] ''tests'' = ([''ab.py''], []) \<and>
   spec_discover_modules star_fs [''a**b''] ''tests'' = ([], [Module_file_not_found ''a**b'']) \<and>
   \<not> os_path_exists star_fs ''a**b.py'' \<and>
   \<not> os_path_exists star_fs ''tests/a**b.py'' \<and>
   glob_glob star_fs ''tests/**/a**b.py'' = []"
  by (simp add: discover_files_by_modules_def possible_paths_def star_fs_def sorted_set_def
      os_path_join_def join_step_def spec_discover_modules_def spec_first_hit_def)

text \<open>
  Claim C9, as amended: for every module name \<open>M\<close>, configuration, search path and
  non-empty group name \<open>G\<close> that the configuration maps to \<open>[M]\<close>, \<open>discover_tests\<close> with
  \<open>modules=[M]\<close> returns the same file list as \<open>discover_tests\<close> with \<open>group=G\<close>.
\<close>

theorem group_of_one_module_same_as_module:
  assumes "G \<noteq> []"
    and "map_of (test_groups config) G = Some [M]"
  shows "fst (discover_tests fs test_type1 (Some [M]) group1 config1 search_path)
       = fst (discover_tests fs test_type2 None (Some G) (Some config) search_path)"
  using assms
  by (simp add: discover_tests_def resolve_test_group_def Let_def split: prod.splits)

theorem group_of_one_module_same_as_module_witness:
  "map_of (test_groups core_group_config) ''core'' = Some [''test_clean''] \<and>
   fst (discover_tests single_file_fs None (Some [''test_clean'']) None (Some core_group_config) ''.'')
     = [''test_clean.py''] \<and>
   fst (discover_tests single_file_fs None None (Some ''core'') (Some core_group_config) ''.'')
     = [''test_clean.py'']"
proof -
  have a: "''core'' \<noteq> []" by simp
  have b: "map_of (test_groups core_group_config) ''core'' = Some [''test_clean'']"
    by (simp add: core_group_config_def Config_of_dict_def empty_dict_def)
  have c: "fst (discover_tests single_file_fs None (Some [''test_clean'']) None
                  (Some core_group_config) ''.'') = [''test_clean.py'']"
    by (simp add: discover_tests_def discover_files_by_modules_def possible_paths_def
        single_file_fs_def sorted_set_def os_path_join_def join_step_def)
  show ?thesis
    using group_of_one_module_same_as_module
            [OF a b, of single_file_fs None None "Some core_group_config" "''.''" None] b c
    by simp
qed

text \<open>
  Claim C9 as stated, for every group name, fails at the empty name: \<open>elif group\<close> is
  false for the empty string, so a group named by it is not resolved and the call falls
  through to the discovery of all test files.
\<close>

theorem unnamed_group_counterexample:
  "map_of (test_groups unnamed_group_config) '''' = Some [''test_clean''] \<and>
   fst (discover_tests single_file_fs None (Some [''test_clean'']) None (Some unnamed_group_config) ''.'')
     = [''test_clean.py''] \<and>
   fst (discover_tests single_file_fs None None (Some '''') (Some unnamed_group_config) ''.'')
     = [''./test_clean.py'']"
  by (simp add: discover_tests_def discover_files_by_modules_def possible_paths_def
      single_file_fs_def sorted_set_def os_path_join_def join_step_def
      unnamed_group_config_def Config_of_dict_def empty_dict_def default_test_patterns_def
      get_all_test_files_def get_test_types_def get_test_files_by_type_def has_test_type_def
      get_patterns_for_test_type_def AList.update.simps)

section \<open>Properties of module loading\<close>

text \<open>What \<open>safe_import_module\<close> does to \<open>sys.path\<close>, on every path through it.\<close>

lemma safe_import_module_sys_path:
  "snd (safe_import_module env module_name file_path sys_path) =
     (case file_path of
        None \<Rightarrow> snd (import_module env module_name sys_path)
      | Some fp \<Rightarrow>
          if fp \<noteq> [] \<and> os_path_exists env fp then
            (case spec_from_file_location env module_name fp of
               Inr True \<Rightarrow>
                 if module_dir_of env fp \<in> set sys_path
                 then snd (exec_module env module_name fp sys_path)
                 else let p2 = snd (exec_module env module_name fp (module_dir_of env fp # sys_path))
                      in if module_dir_of env fp \<in> set p2
                         then remove1 (module_dir_of env fp) p2 else p2
             | _ \<Rightarrow> sys_path)
          else snd (import_module env module_name sys_path))"
  by (simp add: safe_import_module_def Let_def split: option.splits sum.splits bool.splits prod.splits)

text \<open>
  Claim C6, as amended: for every module name and file path, provided the code of the
  loaded module leaves \<open>sys.path\<close> as it finds it, \<open>sys.path\<close> after
  \<open>safe_import_module\<close> returns, whether the load succeeded or raised, equals its value
  before the call.
\<close>

theorem safe_import_module_restores_sys_path:
  assumes "\<And>m f p. snd (exec_module env m f p) = p"
    and "\<And>m p. snd (import_module env m p) = p"
  shows "snd (safe_import_module env module_name file_path sys_path) = sys_path"
  by (simp add: safe_import_module_sys_path assms Let_def split: option.splits sum.splits bool.splits)

theorem safe_import_module_restores_sys_path_witness:
  "safe_import_module example_env ''test_sample'' (Some ''tests/test_sample.py'') [''/usr/lib/python3'']
     = ((Some 7, True, None), [''/usr/lib/python3'']) \<and>
   snd (safe_import_module example_env ''test_sample'' None [''/usr/lib/python3''])
     = [''/usr/lib/python3'']"
proof -
  have a: "\<And>m f p. snd (exec_module example_env m f p) = p" by (simp add: example_env_def)
  have b: "\<And>m p. snd (import_module example_env m p) = p" by (simp add: example_env_def)
  have c: "fst (safe_import_module example_env ''test_sample'' (Some ''tests/test_sample.py'')
                  [''/usr/lib/python3'']) = (Some 7, True, None)"
    by (simp add: safe_import_module_def example_env_def)
  show ?thesis
    using safe_import_module_restores_sys_path [of example_env, OF a b, of "''test_sample''"
            "Some ''tests/test_sample.py''" "[''/usr/lib/python3'']"]
          safe_import_module_restores_sys_path [of example_env, OF a b, of "''test_sample''"
            None "[''/usr/lib/python3'']"] c
    by (simp add: prod_eq_iff)
qed

text \<open>
  Claim C6 as stated, for every file, fails: \<open>safe_import_module\<close> removes the directory
  it added and nothing else. A module that inserts an entry of its own while it is loaded,
  as \<open>example-project/tests/test_utils.py\<close> does with its \<open>../src\<close> directory, leaves
  that entry in \<open>sys.path\<close>.
\<close>

theorem module_editing_sys_path_counterexample:
  "safe_import_module fixture_env ''test_utils'' (Some ''example-project/tests/test_utils.py'')
       [''/usr/lib/python3'']
     = ((Some 7, True, None), [''/repo/example-project/tests/../src'', ''/usr/lib/python3'']) \<and>
   snd (safe_import_module fixture_env ''test_utils'' (Some ''example-project/tests/test_utils.py'')
          [''/usr/lib/python3''])
     \<noteq> [''/usr/lib/python3'']"
  by (simp add: safe_import_module_def fixture_env_def)

section \<open>Properties of the configuration loader\<close>

text \<open>
  Claim C7: \<open>load_config\<close> never raises: it is total, every exception of the source
  being a branch that returns. When the file is absent, cannot be read, or is not parseable
  JSON (as the empty file is, for which \<open>json\<close> raises \<open>JSONDecodeError\<close>), it prints a
  notice and returns the default \<open>Config\<close>; the document \<open>{}\<close> gives the same \<open>Config\<close>,
  and every field of it has its documented default.
\<close>

theorem load_config_falls_back_to_defaults:
  "(\<not> config_exists env f \<longrightarrow>
      load_config env f = (Config_of_dict empty_dict, [No_configuration_file f])) \<and>
   (config_exists env f \<longrightarrow> open_read env f = Inl e \<longrightarrow>
      load_config env f = (Config_of_dict empty_dict,
         [Error_loading_configuration f e, Using_default_configuration])) \<and>
   (config_exists env f \<longrightarrow> open_read env f = Inr content \<longrightarrow>
    json_loads env content = Inl (JSONDecodeError e) \<longrightarrow>
      load_config env f = (Config_of_dict empty_dict,
         [Error_parsing_configuration f e, Using_default_configuration])) \<and>
   (config_exists env f \<longrightarrow> open_read env f = Inr content \<longrightarrow>
    json_loads env content = Inl (OtherLoadError e) \<longrightarrow>
      load_config env f = (Config_of_dict empty_dict,
         [Error_loading_configuration f e, Using_default_configuration])) \<and>
   (config_exists env f \<longrightarrow> open_read env f = Inr content \<longrightarrow>
    json_loads env content = Inr (JNonObject type_name True) \<longrightarrow>
      fst (load_config env f) = Config_of_dict empty_dict \<and>
      Using_default_configuration \<in> set (snd (load_config env f))) \<and>
   (config_exists env f \<longrightarrow> open_read env f = Inr content \<longrightarrow>
    json_loads env content = Inr (JNonObject type_name False) \<longrightarrow>
      fst (load_config env f) = Config_of_dict empty_dict) \<and>
   (config_exists env f \<longrightarrow> open_read env f = Inr [] \<longrightarrow>
    json_loads env [] = Inl (JSONDecodeError e) \<longrightarrow>
      fst (load_config env f) = Config_of_dict empty_dict) \<and>
   (config_exists env f \<longrightarrow> open_read env f = Inr content \<longrightarrow>
    json_loads env content = Inr (JObject empty_dict) \<longrightarrow>
      fst (load_config env f) = Config_of_dict empty_dict) \<and>
   Config_of_dict empty_dict =
     \<lparr> cfg_data = empty_dict,
       test_patterns =
         [(''unit'', [''test_*.py'', ''*_test.py'']),
          (''integration'', [''integration_test_*.py'', ''*_integration_test.py'']),
          (''e2e'', [''e2e_test_*.py'', ''*_e2e_test.py'']),
          (''regression'', [''regression_test_*.py'', ''*_regression_test.py''])],
       test_groups = [(''all'', [])],
       coverage_enabled = True, html_coverage = True, html_coverage_dir = ''htmlcov'' \<rparr>"
  by (simp add: load_config_def Config_of_dict_def empty_dict_def default_test_patterns_def)

theorem load_config_falls_back_to_defaults_witness:
  "load_config example_config_env ''missing.json''
     = (Config_of_dict empty_dict, [No_configuration_file ''missing.json'']) \<and>
   load_config example_config_env ''locked.json''
     = (Config_of_dict empty_dict,
        [Error_loading_configuration ''locked.json'' ''Permission denied'',
         Using_default_configuration]) \<and>
   load_config example_config_env ''empty.json''
     = (Config_of_dict empty_dict,
        [Error_parsing_configuration ''empty.json'' ''Expecting value'',
         Using_default_configuration]) \<and>
   fst (load_config example_config_env ''braces.json'') = Config_of_dict empty_dict \<and>
   html_coverage_dir (fst (load_config example_config_env ''braces.json'')) = ''htmlcov''"
proof -
  have ex: "\<not> config_exists example_config_env ''missing.json''"
    "config_exists example_config_env ''locked.json''"
    "config_exists example_config_env ''empty.json''"
    "config_exists example_config_env ''braces.json''"
    by (simp_all add: example_config_env_def)
  have rd: "open_read example_config_env ''locked.json'' = Inl ''Permission denied''"
    "open_read example_config_env ''empty.json'' = Inr []"
    "open_read example_config_env ''braces.json'' = Inr ''{}''"
    by (simp_all add: example_config_env_def)
  have js: "json_loads example_config_env [] = Inl (JSONDecodeError ''Expecting value'')"
    "json_loads example_config_env ''{}'' = Inr (JObject empty_dict)"
    by (simp_all add: example_config_env_def)
  show ?thesis
    using load_config_falls_back_to_defaults [where env = example_config_env and f = "''missing.json''"]
      load_config_falls_back_to_defaults
        [where env = example_config_env and f = "''locked.json''" and e = "''Permission denied''"]
      load_config_falls_back_to_defaults
        [where env = example_config_env and f = "''empty.json''" and content = "[]"
           and e = "''Expecting value''"]
      load_config_falls_back_to_defaults
        [where env = example_config_env and f = "''braces.json''" and content = "''{}''"]
      ex rd js
    by simp
qed

section \<open>Properties of the exit code\<close>

text \<open>
  After a run that found test methods, the exit code is 0 exactly when no test failed, no
  test had an error and \<open>lint_failed\<close> is false.
\<close>

lemma main_exit_combiner:
  assumes "action \<noteq> ''help''" and "action \<noteq> ''lint''"
    and "discovered_files \<noteq> []" and "total_methods \<noteq> 0"
  shows "main action violation_count discovered_files total_methods r =
     (if \<not> (tr_failed r > 0) \<and> \<not> (tr_errors r > 0)
         \<and> \<not> (action = ''check'' \<and> violation_count > 0) then 0 else 1)"
  using assms by (simp add: main_def Let_def)

text \<open>
  Claim C3 (lint is failed whenever \<open>run_lint\<close> does not report a clean result, so the
  \<open>lint\<close> command exits 1 when \<open>run_lint\<close> returns \<open>-1\<close>) against the code: at \<open>-1\<close> the
  test \<open>violation_count > 0\<close> is false, so \<open>lint\<close> exits 0, and so does \<open>check\<close> after a
  clean test run, although \<open>report_lint_results\<close> prints that linting failed.
\<close>

theorem lint_error_exits_zero:
  "main ''lint'' (- 1) discovered_files total_methods test_results = 0 \<and>
   main ''check'' (- 1) [''test_clean.py''] 2 clean_run = 0 \<and>
   report_lint_results (- 1) = Linting_failed_due_to_an_error"
  by (simp add: main_def report_lint_results_def clean_run_def TestResult_init_def)

end
